theory Spec2Isabelle
  imports Main "HOL-Library.Sublist"
begin

section \<open>Python values, request bodies and the transport collaborator\<close>

text \<open>
  The request body of every operation is a Python \<^verbatim>\<open>Dict[str, Any]\<close>. The values that
  \<^verbatim>\<open>payments.py\<close> stores in it are the parameters themselves: strings, integers and
  booleans. \<open>PyNone\<close> is Python's \<^verbatim>\<open>None\<close> as a dictionary value (a JSON null once
  serialised): it is the value an optional parameter holds when the caller gave none, and
  the value an unguarded assignment would store.
\<close>

datatype pyval = PyNone | PyStr string | PyInt int | PyBool bool

type_synonym pydict = "string \<rightharpoonup> pyval"

text \<open>
  One invocation of \<^verbatim>\<open>client.request(path, method, data)\<close>, as the transport
  collaborator receives it.
\<close>

record call =
  call_path :: string
  call_method :: string
  call_data :: "pydict option"

text \<open>
  The collaborator is injected (\<^verbatim>\<open>Payments.__init__\<close>) and is opaque to the facade.
  Its behaviour is the field \<open>respond\<close>: given the requests already issued and the
  current one, it either raises an error (\<open>Inl\<close>) or returns the decoded response
  (\<open>Inr\<close>). Error and response types are left open.
\<close>

record ('e, 'r) ArcPayClient =
  respond :: "call list \<Rightarrow> call \<Rightarrow> 'e + 'r"

text \<open>
  Modelled from the spec: \<^verbatim>\<open>client.py\<close> (class \<^verbatim>\<open>ArcPayClient\<close>) is not among the
  sources. The spec gives the collaborator a single capability
  \<^verbatim>\<open>request(path, method, data) -> mapping\<close> that raises on failure, and its endpoint
  table lists \<^verbatim>\<open>retrieve\<close>, the one caller that passes neither \<^verbatim>\<open>method\<close> nor
  \<^verbatim>\<open>data\<close>, as a GET without body fields. So an omitted \<^verbatim>\<open>method\<close> (\<open>None\<close> here)
  is GET and an omitted \<^verbatim>\<open>data\<close> is no body. The state threaded through is the list of
  requests the collaborator has received, oldest first: every invocation appends one
  entry.
\<close>

definition ArcPayClient_request ::
  "('e, 'r) ArcPayClient \<Rightarrow> string \<Rightarrow> string option \<Rightarrow> pydict option \<Rightarrow> call list
     \<Rightarrow> ('e + 'r) \<times> call list" where
  "ArcPayClient_request c path method data log =
     (let req = \<lparr>call_path = path,
                 call_method = (case method of None \<Rightarrow> ''GET'' | Some m \<Rightarrow> m),
                 call_data = data\<rparr>
      in (respond c log req, log @ [req]))"

section \<open>The payment operations facade\<close>

text \<open>Class \<^verbatim>\<open>Payments\<close>: its only field is the client handle.\<close>

record ('e, 'r) Payments =
  client :: "('e, 'r) ArcPayClient"

text \<open>
  A variable annotated \<^verbatim>\<open>Optional[T]\<close> holds either \<^verbatim>\<open>None\<close> or a value of type
  \<^verbatim>\<open>T\<close>. The assignment \<^verbatim>\<open>data[key] = p\<close> stores whatever the variable holds, so
  the stored value is \<open>py_value\<close> of the variable: \<open>PyNone\<close> when it holds
  \<^verbatim>\<open>None\<close>. Only the guard \<^verbatim>\<open>if p is not None\<close> keeps that value out of a body.
\<close>

fun py_value :: "('a \<Rightarrow> pyval) \<Rightarrow> 'a option \<Rightarrow> pyval" where
  "py_value f None = PyNone"
| "py_value f (Some x) = f x"

text \<open>
  A parameter declared \<^verbatim>\<open>p: Optional[T] = None\<close> is either left out at the call site
  or passed, possibly as \<^verbatim>\<open>None\<close>. \<open>bind_optional\<close> is Python's binding of such a
  parameter: the declared default \<^verbatim>\<open>None\<close> when it is left out, the passed value
  otherwise. The operations below take the bound values, as the method bodies do.
\<close>

datatype 'a arg = Omitted | Passed "'a option"

fun bind_optional :: "'a arg \<Rightarrow> 'a option" where
  "bind_optional Omitted = None"
| "bind_optional (Passed v) = v"

text \<open>
  \<^verbatim>\<open>Payments.create\<close>, lines 56 to 82: the dictionary \<^verbatim>\<open>data\<close> starts with the two
  required fields, then each \<^verbatim>\<open>if p is not None: data[key] = p\<close> statement runs in
  source order. \<^verbatim>\<open>settlement_currency\<close> is annotated \<^verbatim>\<open>Literal["USDC", "EURC"]\<close>;
  the code stores whatever string it is given, so the model takes any string.
\<close>

definition create_data ::
  "string \<Rightarrow> string \<Rightarrow> string option \<Rightarrow> string option \<Rightarrow> string option \<Rightarrow> int option
     \<Rightarrow> string option \<Rightarrow> string option \<Rightarrow> string option \<Rightarrow> string option \<Rightarrow> int option
     \<Rightarrow> bool option \<Rightarrow> bool option \<Rightarrow> pydict" where
  "create_data amount merchant_wallet currency settlement_currency payment_asset
       payment_chain_id conversion_path estimated_fees description customer_email
       expires_in_minutes is_test gas_sponsored =
     (let data = [''amount'' \<mapsto> PyStr amount, ''merchantWallet'' \<mapsto> PyStr merchant_wallet];
          data = (if currency \<noteq> None
                  then data(''currency'' \<mapsto> py_value PyStr currency) else data);
          data = (if settlement_currency \<noteq> None
                  then data(''settlementCurrency'' \<mapsto> py_value PyStr settlement_currency)
                  else data);
          data = (if payment_asset \<noteq> None
                  then data(''paymentAsset'' \<mapsto> py_value PyStr payment_asset) else data);
          data = (if payment_chain_id \<noteq> None
                  then data(''paymentChainId'' \<mapsto> py_value PyInt payment_chain_id) else data);
          data = (if conversion_path \<noteq> None
                  then data(''conversionPath'' \<mapsto> py_value PyStr conversion_path) else data);
          data = (if estimated_fees \<noteq> None
                  then data(''estimatedFees'' \<mapsto> py_value PyStr estimated_fees) else data);
          data = (if description \<noteq> None
                  then data(''description'' \<mapsto> py_value PyStr description) else data);
          data = (if customer_email \<noteq> None
                  then data(''customerEmail'' \<mapsto> py_value PyStr customer_email) else data);
          data = (if expires_in_minutes \<noteq> None
                  then data(''expiresInMinutes'' \<mapsto> py_value PyInt expires_in_minutes) else data);
          data = (if is_test \<noteq> None
                  then data(''isTest'' \<mapsto> py_value PyBool is_test) else data);
          data = (if gas_sponsored \<noteq> None
                  then data(''gasSponsored'' \<mapsto> py_value PyBool gas_sponsored) else data)
      in data)"

text \<open>\<^verbatim>\<open>Payments.create\<close>, line 84: the single \<^verbatim>\<open>return self.client.request(...)\<close>.\<close>

definition create ::
  "('e, 'r) Payments \<Rightarrow> string \<Rightarrow> string \<Rightarrow> string option \<Rightarrow> string option \<Rightarrow> string option
     \<Rightarrow> int option \<Rightarrow> string option \<Rightarrow> string option \<Rightarrow> string option \<Rightarrow> string option
     \<Rightarrow> int option \<Rightarrow> bool option \<Rightarrow> bool option \<Rightarrow> call list \<Rightarrow> ('e + 'r) \<times> call list" where
  "create self amount merchant_wallet currency settlement_currency payment_asset
       payment_chain_id conversion_path estimated_fees description customer_email
       expires_in_minutes is_test gas_sponsored log =
     ArcPayClient_request (client self) ''/api/payments/create'' (Some ''POST'')
       (Some (create_data amount merchant_wallet currency settlement_currency payment_asset
                payment_chain_id conversion_path estimated_fees description customer_email
                expires_in_minutes is_test gas_sponsored)) log"

text \<open>
  \<^verbatim>\<open>Payments.retrieve\<close>: the f-string \<^verbatim>\<open>f"/api/payments/{payment_id}"\<close> of a
  \<^verbatim>\<open>str\<close> is the prefix followed by the identifier; \<^verbatim>\<open>method\<close> and \<^verbatim>\<open>data\<close> are
  not passed.
\<close>

definition retrieve ::
  "('e, 'r) Payments \<Rightarrow> string \<Rightarrow> call list \<Rightarrow> ('e + 'r) \<times> call list" where
  "retrieve self payment_id log =
     ArcPayClient_request (client self) (''/api/payments/'' @ payment_id) None None log"

text \<open>\<^verbatim>\<open>Payments.submit_tx\<close>, lines 121 to 132 (the body) and line 134 (the request).\<close>

definition submit_tx_data ::
  "string \<Rightarrow> string \<Rightarrow> string \<Rightarrow> string option \<Rightarrow> string option \<Rightarrow> bool option \<Rightarrow> pydict" where
  "submit_tx_data payment_id tx_hash payer_wallet customer_email customer_name gas_sponsored =
     (let data = [''paymentId'' \<mapsto> PyStr payment_id, ''txHash'' \<mapsto> PyStr tx_hash,
                  ''payerWallet'' \<mapsto> PyStr payer_wallet];
          data = (if customer_email \<noteq> None
                  then data(''customerEmail'' \<mapsto> py_value PyStr customer_email) else data);
          data = (if customer_name \<noteq> None
                  then data(''customerName'' \<mapsto> py_value PyStr customer_name) else data);
          data = (if gas_sponsored \<noteq> None
                  then data(''gasSponsored'' \<mapsto> py_value PyBool gas_sponsored) else data)
      in data)"

definition submit_tx ::
  "('e, 'r) Payments \<Rightarrow> string \<Rightarrow> string \<Rightarrow> string \<Rightarrow> string option \<Rightarrow> string option
     \<Rightarrow> bool option \<Rightarrow> call list \<Rightarrow> ('e + 'r) \<times> call list" where
  "submit_tx self payment_id tx_hash payer_wallet customer_email customer_name gas_sponsored log =
     ArcPayClient_request (client self) ''/api/payments/submit-tx'' (Some ''POST'')
       (Some (submit_tx_data payment_id tx_hash payer_wallet customer_email customer_name
                gas_sponsored)) log"

text \<open>\<^verbatim>\<open>Payments.confirm\<close>, lines 159 to 170 (the body) and line 172 (the request).\<close>

definition confirm_data ::
  "string \<Rightarrow> string \<Rightarrow> string \<Rightarrow> string option \<Rightarrow> string option \<Rightarrow> bool option \<Rightarrow> pydict" where
  "confirm_data payment_id tx_hash payer_wallet customer_email customer_name gas_sponsored =
     (let data = [''paymentId'' \<mapsto> PyStr payment_id, ''txHash'' \<mapsto> PyStr tx_hash,
                  ''payerWallet'' \<mapsto> PyStr payer_wallet];
          data = (if customer_email \<noteq> None
                  then data(''customerEmail'' \<mapsto> py_value PyStr customer_email) else data);
          data = (if customer_name \<noteq> None
                  then data(''customerName'' \<mapsto> py_value PyStr customer_name) else data);
          data = (if gas_sponsored \<noteq> None
                  then data(''gasSponsored'' \<mapsto> py_value PyBool gas_sponsored) else data)
      in data)"

definition confirm ::
  "('e, 'r) Payments \<Rightarrow> string \<Rightarrow> string \<Rightarrow> string \<Rightarrow> string option \<Rightarrow> string option
     \<Rightarrow> bool option \<Rightarrow> call list \<Rightarrow> ('e + 'r) \<times> call list" where
  "confirm self payment_id tx_hash payer_wallet customer_email customer_name gas_sponsored log =
     ArcPayClient_request (client self) ''/api/payments/confirm'' (Some ''POST'')
       (Some (confirm_data payment_id tx_hash payer_wallet customer_email customer_name
                gas_sponsored)) log"

text \<open>\<^verbatim>\<open>Payments.fail\<close>, lines 185 to 187 (the body) and line 189 (the request).\<close>

definition fail_data :: "string \<Rightarrow> string option \<Rightarrow> pydict" where
  "fail_data payment_id reason =
     (let data = [''paymentId'' \<mapsto> PyStr payment_id];
          data = (if reason \<noteq> None then data(''reason'' \<mapsto> py_value PyStr reason) else data)
      in data)"

definition fail ::
  "('e, 'r) Payments \<Rightarrow> string \<Rightarrow> string option \<Rightarrow> call list \<Rightarrow> ('e + 'r) \<times> call list" where
  "fail self payment_id reason log =
     ArcPayClient_request (client self) ''/api/payments/fail'' (Some ''POST'')
       (Some (fail_data payment_id reason)) log"

text \<open>\<^verbatim>\<open>Payments.expire\<close>, lines 201 and 202.\<close>

definition expire_data :: "string \<Rightarrow> pydict" where
  "expire_data payment_id = [''paymentId'' \<mapsto> PyStr payment_id]"

definition expire ::
  "('e, 'r) Payments \<Rightarrow> string \<Rightarrow> call list \<Rightarrow> ('e + 'r) \<times> call list" where
  "expire self payment_id log =
     ArcPayClient_request (client self) ''/api/payments/expire'' (Some ''POST'')
       (Some (expire_data payment_id)) log"

section \<open>The naming convention of the wire format\<close>

text \<open>
  The specification describes the wire name of a field as the parameter name taken from
  snake style to camel style: every underscore is dropped and the letter after it is
  capitalised. \<open>snake_to_camel\<close> is that transform, written from the specification's
  words; the keys in the operations above are the literals of the source.
\<close>

definition upper_ascii :: "char \<Rightarrow> char" where
  "upper_ascii c =
     (let n = (of_char c :: nat) in if 97 \<le> n \<and> n \<le> 122 then char_of (n - 32) else c)"

fun snake_to_camel :: "string \<Rightarrow> string" where
  "snake_to_camel [] = []"
| "snake_to_camel [c] = [c]"
| "snake_to_camel (c # d # cs) =
     (if c = CHR ''_'' then upper_ascii d # snake_to_camel cs
      else c # snake_to_camel (d # cs))"

text \<open>
  An optional parameter \<open>param\<close> whose bound value is \<open>supplied\<close> is serialised
  presence-conditionally in \<open>body\<close>: the wire key is there exactly when a value was
  supplied, and the entry under the key is the supplied value (so no entry when there is
  none).
\<close>

definition carries :: "pydict \<Rightarrow> string \<Rightarrow> pyval option \<Rightarrow> bool" where
  "carries body param supplied =
     (((snake_to_camel param \<in> dom body) = (supplied \<noteq> None))
      \<and> body (snake_to_camel param) = supplied)"

section \<open>Auxiliary facts\<close>

text \<open>
  Looking a key up after one conditional assignment \<^verbatim>\<open>if c: d[k] = v\<close>. With it each
  body is characterised key by key, in one pass over the assignments of the source.
\<close>

lemma if_upd_apply:
  "(if c then d(k \<mapsto> v) else d) k' = (if k' = k \<and> c then Some v else d k')"
  by simp

text \<open>Under its guard, the stored value is the value the parameter was given.\<close>

lemma guarded_value:
  "(if k = k' \<and> x \<noteq> None then Some (py_value f x) else e) =
     (if k = k' \<and> x \<noteq> None then Some (f (the x)) else e)"
  by (cases x) simp_all

lemma create_data_apply:
  "create_data a mw c sc pa pci cp ef d ce em it gs k =
     (if k = ''gasSponsored'' \<and> gs \<noteq> None then Some (PyBool (the gs))
      else if k = ''isTest'' \<and> it \<noteq> None then Some (PyBool (the it))
      else if k = ''expiresInMinutes'' \<and> em \<noteq> None then Some (PyInt (the em))
      else if k = ''customerEmail'' \<and> ce \<noteq> None then Some (PyStr (the ce))
      else if k = ''description'' \<and> d \<noteq> None then Some (PyStr (the d))
      else if k = ''estimatedFees'' \<and> ef \<noteq> None then Some (PyStr (the ef))
      else if k = ''conversionPath'' \<and> cp \<noteq> None then Some (PyStr (the cp))
      else if k = ''paymentChainId'' \<and> pci \<noteq> None then Some (PyInt (the pci))
      else if k = ''paymentAsset'' \<and> pa \<noteq> None then Some (PyStr (the pa))
      else if k = ''settlementCurrency'' \<and> sc \<noteq> None then Some (PyStr (the sc))
      else if k = ''currency'' \<and> c \<noteq> None then Some (PyStr (the c))
      else if k = ''merchantWallet'' then Some (PyStr mw)
      else if k = ''amount'' then Some (PyStr a)
      else None)"
  unfolding create_data_def Let_def
  by (simp only: if_upd_apply fun_upd_apply guarded_value)

lemma submit_tx_data_apply:
  "submit_tx_data p t w ce cn gs k =
     (if k = ''gasSponsored'' \<and> gs \<noteq> None then Some (PyBool (the gs))
      else if k = ''customerName'' \<and> cn \<noteq> None then Some (PyStr (the cn))
      else if k = ''customerEmail'' \<and> ce \<noteq> None then Some (PyStr (the ce))
      else if k = ''payerWallet'' then Some (PyStr w)
      else if k = ''txHash'' then Some (PyStr t)
      else if k = ''paymentId'' then Some (PyStr p)
      else None)"
  unfolding submit_tx_data_def Let_def
  by (simp only: if_upd_apply fun_upd_apply guarded_value)

lemma confirm_data_eq: "confirm_data = submit_tx_data"
  by (intro ext) (simp only: confirm_data_def submit_tx_data_def)

lemma fail_data_apply:
  "fail_data p r k =
     (if k = ''reason'' \<and> r \<noteq> None then Some (PyStr (the r))
      else if k = ''paymentId'' then Some (PyStr p)
      else None)"
  unfolding fail_data_def Let_def
  by (simp only: if_upd_apply fun_upd_apply guarded_value)

text \<open>The wire name of every parameter of the facade, computed from its Python name.\<close>

lemma wire_names:
  "snake_to_camel ''currency'' = ''currency''"
  "snake_to_camel ''settlement_currency'' = ''settlementCurrency''"
  "snake_to_camel ''payment_asset'' = ''paymentAsset''"
  "snake_to_camel ''payment_chain_id'' = ''paymentChainId''"
  "snake_to_camel ''conversion_path'' = ''conversionPath''"
  "snake_to_camel ''estimated_fees'' = ''estimatedFees''"
  "snake_to_camel ''description'' = ''description''"
  "snake_to_camel ''customer_email'' = ''customerEmail''"
  "snake_to_camel ''expires_in_minutes'' = ''expiresInMinutes''"
  "snake_to_camel ''is_test'' = ''isTest''"
  "snake_to_camel ''gas_sponsored'' = ''gasSponsored''"
  "snake_to_camel ''customer_name'' = ''customerName''"
  "snake_to_camel ''reason'' = ''reason''"
  "snake_to_camel ''amount'' = ''amount''"
  "snake_to_camel ''merchant_wallet'' = ''merchantWallet''"
  "snake_to_camel ''payment_id'' = ''paymentId''"
  "snake_to_camel ''tx_hash'' = ''txHash''"
  "snake_to_camel ''payer_wallet'' = ''payerWallet''"
  by code_simp+

text \<open>One invocation of the collaborator, with the request it receives written out.\<close>

lemma request_unfold:
  "ArcPayClient_request c path (Some m) data log =
     (respond c log \<lparr>call_path = path, call_method = m, call_data = data\<rparr>,
      log @ [\<lparr>call_path = path, call_method = m, call_data = data\<rparr>])"
  "ArcPayClient_request c path None data log =
     (respond c log \<lparr>call_path = path, call_method = ''GET'', call_data = data\<rparr>,
      log @ [\<lparr>call_path = path, call_method = ''GET'', call_data = data\<rparr>])"
  by (simp_all add: ArcPayClient_request_def Let_def)

text \<open>Every optional parameter of every body, and the values a body can hold.\<close>

lemma create_carries:
  "carries (create_data a mw c sc pa pci cp ef d ce em it gs) ''currency'' (map_option PyStr c)"
  "carries (create_data a mw c sc pa pci cp ef d ce em it gs) ''settlement_currency'' (map_option PyStr sc)"
  "carries (create_data a mw c sc pa pci cp ef d ce em it gs) ''payment_asset'' (map_option PyStr pa)"
  "carries (create_data a mw c sc pa pci cp ef d ce em it gs) ''payment_chain_id'' (map_option PyInt pci)"
  "carries (create_data a mw c sc pa pci cp ef d ce em it gs) ''conversion_path'' (map_option PyStr cp)"
  "carries (create_data a mw c sc pa pci cp ef d ce em it gs) ''estimated_fees'' (map_option PyStr ef)"
  "carries (create_data a mw c sc pa pci cp ef d ce em it gs) ''description'' (map_option PyStr d)"
  "carries (create_data a mw c sc pa pci cp ef d ce em it gs) ''customer_email'' (map_option PyStr ce)"
  "carries (create_data a mw c sc pa pci cp ef d ce em it gs) ''expires_in_minutes'' (map_option PyInt em)"
  "carries (create_data a mw c sc pa pci cp ef d ce em it gs) ''is_test'' (map_option PyBool it)"
  "carries (create_data a mw c sc pa pci cp ef d ce em it gs) ''gas_sponsored'' (map_option PyBool gs)"
  unfolding carries_def wire_names domIff
  by (auto simp add: create_data_apply)

lemma submit_tx_carries:
  "carries (submit_tx_data p t w ce cn gs) ''customer_email'' (map_option PyStr ce)"
  "carries (submit_tx_data p t w ce cn gs) ''customer_name'' (map_option PyStr cn)"
  "carries (submit_tx_data p t w ce cn gs) ''gas_sponsored'' (map_option PyBool gs)"
  unfolding carries_def wire_names domIff
  by (auto simp add: submit_tx_data_apply)

lemma fail_carries:
  "carries (fail_data p r) ''reason'' (map_option PyStr r)"
  unfolding carries_def wire_names domIff
  by (auto simp add: fail_data_apply)

lemma no_null:
  "PyNone \<notin> ran (create_data a mw c sc pa pci cp ef d ce em it gs)"
  "PyNone \<notin> ran (submit_tx_data p t w ce cn gs)"
  "PyNone \<notin> ran (fail_data p r)"
  "PyNone \<notin> ran (expire_data p)"
  by (auto simp add: ran_def create_data_apply submit_tx_data_apply fail_data_apply expire_data_def split: if_splits)

text \<open>A parameter that holds \<^verbatim>\<open>None\<close> contributes no key.\<close>

lemma none_leaves_key_out:
  "''currency'' \<notin> dom (create_data a mw None sc pa pci cp ef d ce em it gs)"
  "''settlementCurrency'' \<notin> dom (create_data a mw c None pa pci cp ef d ce em it gs)"
  "''paymentAsset'' \<notin> dom (create_data a mw c sc None pci cp ef d ce em it gs)"
  "''paymentChainId'' \<notin> dom (create_data a mw c sc pa None cp ef d ce em it gs)"
  "''conversionPath'' \<notin> dom (create_data a mw c sc pa pci None ef d ce em it gs)"
  "''estimatedFees'' \<notin> dom (create_data a mw c sc pa pci cp None d ce em it gs)"
  "''description'' \<notin> dom (create_data a mw c sc pa pci cp ef None ce em it gs)"
  "''customerEmail'' \<notin> dom (create_data a mw c sc pa pci cp ef d None em it gs)"
  "''expiresInMinutes'' \<notin> dom (create_data a mw c sc pa pci cp ef d ce None it gs)"
  "''isTest'' \<notin> dom (create_data a mw c sc pa pci cp ef d ce em None gs)"
  "''gasSponsored'' \<notin> dom (create_data a mw c sc pa pci cp ef d ce em it None)"
  "''customerEmail'' \<notin> dom (submit_tx_data p t w None cn gs)"
  "''customerName'' \<notin> dom (submit_tx_data p t w ce None gs)"
  "''gasSponsored'' \<notin> dom (submit_tx_data p t w ce cn None)"
  "''customerEmail'' \<notin> dom (confirm_data p t w None cn gs)"
  "''customerName'' \<notin> dom (confirm_data p t w ce None gs)"
  "''gasSponsored'' \<notin> dom (confirm_data p t w ce cn None)"
  "''reason'' \<notin> dom (fail_data p None)"
  by (simp_all add: domIff confirm_data_eq create_data_apply submit_tx_data_apply fail_data_apply)

text \<open>Each operation as the one request it hands to the collaborator.\<close>

lemma operation_unfold:
  "create self a mw c sc pa pci cp ef d ce em it gs log =
     (respond (client self) log
        \<lparr>call_path = ''/api/payments/create'', call_method = ''POST'',
         call_data = Some (create_data a mw c sc pa pci cp ef d ce em it gs)\<rparr>,
      log @ [\<lparr>call_path = ''/api/payments/create'', call_method = ''POST'',
              call_data = Some (create_data a mw c sc pa pci cp ef d ce em it gs)\<rparr>])"
  "retrieve self p log =
     (respond (client self) log
        \<lparr>call_path = ''/api/payments/'' @ p, call_method = ''GET'', call_data = None\<rparr>,
      log @ [\<lparr>call_path = ''/api/payments/'' @ p, call_method = ''GET'', call_data = None\<rparr>])"
  "submit_tx self p t w ce cn gs log =
     (respond (client self) log
        \<lparr>call_path = ''/api/payments/submit-tx'', call_method = ''POST'',
         call_data = Some (submit_tx_data p t w ce cn gs)\<rparr>,
      log @ [\<lparr>call_path = ''/api/payments/submit-tx'', call_method = ''POST'',
              call_data = Some (submit_tx_data p t w ce cn gs)\<rparr>])"
  "confirm self p t w ce cn gs log =
     (respond (client self) log
        \<lparr>call_path = ''/api/payments/confirm'', call_method = ''POST'',
         call_data = Some (confirm_data p t w ce cn gs)\<rparr>,
      log @ [\<lparr>call_path = ''/api/payments/confirm'', call_method = ''POST'',
              call_data = Some (confirm_data p t w ce cn gs)\<rparr>])"
  "fail self p r log =
     (respond (client self) log
        \<lparr>call_path = ''/api/payments/fail'', call_method = ''POST'',
         call_data = Some (fail_data p r)\<rparr>,
      log @ [\<lparr>call_path = ''/api/payments/fail'', call_method = ''POST'',
              call_data = Some (fail_data p r)\<rparr>])"
  "expire self p log =
     (respond (client self) log
        \<lparr>call_path = ''/api/payments/expire'', call_method = ''POST'',
         call_data = Some (expire_data p)\<rparr>,
      log @ [\<lparr>call_path = ''/api/payments/expire'', call_method = ''POST'',
              call_data = Some (expire_data p)\<rparr>])"
  by (simp_all only: create_def retrieve_def submit_tx_def confirm_def fail_def expire_def
        request_unfold)

text \<open>The bodies built when no optional parameter has a value.\<close>

lemma bodies_without_optionals:
  "create_data a mw None None None None None None None None None None None =
     [''amount'' \<mapsto> PyStr a, ''merchantWallet'' \<mapsto> PyStr mw]"
  "submit_tx_data p t w None None None =
     [''paymentId'' \<mapsto> PyStr p, ''txHash'' \<mapsto> PyStr t, ''payerWallet'' \<mapsto> PyStr w]"
  "fail_data p None = [''paymentId'' \<mapsto> PyStr p]"
  "fail_data p (Some r) = [''paymentId'' \<mapsto> PyStr p, ''reason'' \<mapsto> PyStr r]"
  by (simp_all add: create_data_def submit_tx_data_def fail_data_def)

lemma confirm_carries:
  "carries (confirm_data p t w ce cn gs) ''customer_email'' (map_option PyStr ce)"
  "carries (confirm_data p t w ce cn gs) ''customer_name'' (map_option PyStr cn)"
  "carries (confirm_data p t w ce cn gs) ''gas_sponsored'' (map_option PyBool gs)"
  unfolding confirm_data_eq by (rule submit_tx_carries)+


section \<open>The claims\<close>

text \<open>
  C1. In every operation that has optional parameters (\<^verbatim>\<open>create\<close>, \<^verbatim>\<open>submit_tx\<close>,
  \<^verbatim>\<open>confirm\<close>, \<^verbatim>\<open>fail\<close>) the body handed to the collaborator holds, for each optional
  parameter, the key obtained from the parameter's name by the snake-to-camel transform
  exactly when the caller supplied a value other than \<^verbatim>\<open>None\<close>; the entry is then the
  supplied value itself, and otherwise there is no entry under that key at all.
\<close>

theorem optional_parameters_presence_conditional:
  "(let body = create_data a mw c sc pa pci cp ef d ce em it gs in
      snd (create self a mw c sc pa pci cp ef d ce em it gs log) =
        log @ [\<lparr>call_path = ''/api/payments/create'', call_method = ''POST'',
                call_data = Some body\<rparr>]
      \<and> carries body ''currency'' (map_option PyStr c)
      \<and> carries body ''settlement_currency'' (map_option PyStr sc)
      \<and> carries body ''payment_asset'' (map_option PyStr pa)
      \<and> carries body ''payment_chain_id'' (map_option PyInt pci)
      \<and> carries body ''conversion_path'' (map_option PyStr cp)
      \<and> carries body ''estimated_fees'' (map_option PyStr ef)
      \<and> carries body ''description'' (map_option PyStr d)
      \<and> carries body ''customer_email'' (map_option PyStr ce)
      \<and> carries body ''expires_in_minutes'' (map_option PyInt em)
      \<and> carries body ''is_test'' (map_option PyBool it)
      \<and> carries body ''gas_sponsored'' (map_option PyBool gs))
   \<and> (let body = submit_tx_data p t w ce cn gs in
      snd (submit_tx self p t w ce cn gs log) =
        log @ [\<lparr>call_path = ''/api/payments/submit-tx'', call_method = ''POST'',
                call_data = Some body\<rparr>]
      \<and> carries body ''customer_email'' (map_option PyStr ce)
      \<and> carries body ''customer_name'' (map_option PyStr cn)
      \<and> carries body ''gas_sponsored'' (map_option PyBool gs))
   \<and> (let body = confirm_data p t w ce cn gs in
      snd (confirm self p t w ce cn gs log) =
        log @ [\<lparr>call_path = ''/api/payments/confirm'', call_method = ''POST'',
                call_data = Some body\<rparr>]
      \<and> carries body ''customer_email'' (map_option PyStr ce)
      \<and> carries body ''customer_name'' (map_option PyStr cn)
      \<and> carries body ''gas_sponsored'' (map_option PyBool gs))
   \<and> (let body = fail_data p r in
      snd (fail self p r log) =
        log @ [\<lparr>call_path = ''/api/payments/fail'', call_method = ''POST'',
                call_data = Some body\<rparr>]
      \<and> carries body ''reason'' (map_option PyStr r))"
  unfolding Let_def
  by (simp only: operation_unfold snd_conv create_carries submit_tx_carries confirm_carries
        fail_carries simp_thms)

text \<open>
  C2. \<^verbatim>\<open>create(amount="100.00", merchant_wallet="0xabc")\<close> with every optional parameter
  left out hands the collaborator one POST to \<^verbatim>\<open>/api/payments/create\<close> whose body is the
  mapping with the two keys \<^verbatim>\<open>amount\<close> and \<^verbatim>\<open>merchantWallet\<close> and nothing else; and for
  all arguments of \<^verbatim>\<open>create\<close> the body holds the two required fields with the values
  passed.
\<close>

theorem create_required_fields:
  "(let r = \<lparr>call_path = ''/api/payments/create'', call_method = ''POST'',
             call_data = Some [''amount'' \<mapsto> PyStr ''100.00'',
                               ''merchantWallet'' \<mapsto> PyStr ''0xabc'']\<rparr> in
      create self ''100.00'' ''0xabc'' (bind_optional Omitted) (bind_optional Omitted)
        (bind_optional Omitted) (bind_optional Omitted) (bind_optional Omitted)
        (bind_optional Omitted) (bind_optional Omitted) (bind_optional Omitted)
        (bind_optional Omitted) (bind_optional Omitted) (bind_optional Omitted) log =
      (respond (client self) log r, log @ [r]))
   \<and> dom [''amount'' \<mapsto> PyStr ''100.00'', ''merchantWallet'' \<mapsto> PyStr ''0xabc''] =
       {''amount'', ''merchantWallet''}
   \<and> (let body = create_data a mw c sc pa pci cp ef d ce em it gs in
      snd (create self a mw c sc pa pci cp ef d ce em it gs log) =
        log @ [\<lparr>call_path = ''/api/payments/create'', call_method = ''POST'',
                call_data = Some body\<rparr>]
      \<and> body ''amount'' = Some (PyStr a)
      \<and> body ''merchantWallet'' = Some (PyStr mw))"
  unfolding Let_def
  by (simp add: operation_unfold bodies_without_optionals create_data_apply insert_commute)

text \<open>
  C3. On the same six arguments \<^verbatim>\<open>submit_tx\<close> and \<^verbatim>\<open>confirm\<close> build the same body and
  use the same method POST; the request of \<^verbatim>\<open>confirm\<close> is the request of
  \<^verbatim>\<open>submit_tx\<close> with the path \<^verbatim>\<open>/api/payments/submit-tx\<close> replaced by
  \<^verbatim>\<open>/api/payments/confirm\<close>, and since the paths differ the two operations never issue
  the same request.
\<close>

theorem submit_tx_confirm_same_request:
  "(let r = \<lparr>call_path = ''/api/payments/submit-tx'', call_method = ''POST'',
             call_data = Some (submit_tx_data p t w ce cn gs)\<rparr>;
        r' = r\<lparr>call_path := ''/api/payments/confirm''\<rparr> in
      submit_tx self p t w ce cn gs log = (respond (client self) log r, log @ [r])
      \<and> confirm self p t w ce cn gs log = (respond (client self) log r', log @ [r'])
      \<and> call_method r' = call_method r \<and> call_data r' = call_data r
      \<and> call_path r' \<noteq> call_path r)
   \<and> confirm_data p t w ce cn gs = submit_tx_data p t w ce cn gs
   \<and> snd (confirm self p t w ce cn gs log) \<noteq> snd (submit_tx self p t w ce cn gs log)"
  unfolding Let_def
  by (simp add: operation_unfold confirm_data_eq)

text \<open>
  C4. \<^verbatim>\<open>submit_tx(payment_id="pay_1", tx_hash="0xhash", payer_wallet="0xpayer")\<close> with
  the optional parameters left out sends, by POST to \<^verbatim>\<open>/api/payments/submit-tx\<close>, the body
  with exactly the three keys \<^verbatim>\<open>paymentId\<close>, \<^verbatim>\<open>txHash\<close> and \<^verbatim>\<open>payerWallet\<close>.
\<close>

theorem submit_tx_required_only:
  "(let r = \<lparr>call_path = ''/api/payments/submit-tx'', call_method = ''POST'',
             call_data = Some [''paymentId'' \<mapsto> PyStr ''pay_1'', ''txHash'' \<mapsto> PyStr ''0xhash'',
                               ''payerWallet'' \<mapsto> PyStr ''0xpayer'']\<rparr> in
      submit_tx self ''pay_1'' ''0xhash'' ''0xpayer'' (bind_optional Omitted)
        (bind_optional Omitted) (bind_optional Omitted) log =
      (respond (client self) log r, log @ [r]))
   \<and> dom [''paymentId'' \<mapsto> PyStr ''pay_1'', ''txHash'' \<mapsto> PyStr ''0xhash'',
           ''payerWallet'' \<mapsto> PyStr ''0xpayer''] = {''paymentId'', ''txHash'', ''payerWallet''}"
  unfolding Let_def
  by (simp add: operation_unfold bodies_without_optionals insert_commute)

text \<open>
  C5. For every identifier, \<^verbatim>\<open>retrieve\<close> hands the collaborator one request: method GET
  (no method is passed, so the collaborator's default applies), a path that contains the
  identifier as it is, and no body. What \<^verbatim>\<open>retrieve\<close> returns is what the collaborator
  answered to that request; in particular a decoded response comes back unchanged.
  \<^verbatim>\<open>retrieve("pay_123")\<close> requests \<^verbatim>\<open>/api/payments/pay_123\<close>.
\<close>

theorem retrieve_get_passthrough:
  "(let r = \<lparr>call_path = ''/api/payments/'' @ p, call_method = ''GET'', call_data = None\<rparr> in
      retrieve self p log = (respond (client self) log r, log @ [r])
      \<and> sublist p (call_path r)
      \<and> (fst (retrieve self p log) = Inr resp) = (respond (client self) log r = Inr resp))
   \<and> snd (retrieve self ''pay_123'' log) =
       log @ [\<lparr>call_path = ''/api/payments/pay_123'', call_method = ''GET'', call_data = None\<rparr>]
   \<and> sublist ''pay_123'' ''/api/payments/pay_123''"
proof -
  have "sublist ''pay_123'' (''/api/payments/'' @ ''pay_123'')"
    by (rule sublist_append_leftI)
  then have "sublist ''pay_123'' ''/api/payments/pay_123''"
    by simp
  moreover have "sublist p (''/api/payments/'' @ p)"
    by (rule sublist_append_leftI)
  ultimately show ?thesis
    unfolding Let_def by (simp add: operation_unfold)
qed

text \<open>
  C6. \<^verbatim>\<open>fail(payment_id)\<close> without a reason sends the body with the single key
  \<^verbatim>\<open>paymentId\<close>; \<^verbatim>\<open>fail(payment_id, reason)\<close> sends the body with the two keys
  \<^verbatim>\<open>paymentId\<close> and \<^verbatim>\<open>reason\<close>. Both are one POST to \<^verbatim>\<open>/api/payments/fail\<close>.
\<close>

theorem fail_body:
  "(let r = \<lparr>call_path = ''/api/payments/fail'', call_method = ''POST'',
             call_data = Some [''paymentId'' \<mapsto> PyStr p]\<rparr> in
      fail self p (bind_optional Omitted) log = (respond (client self) log r, log @ [r]))
   \<and> dom [''paymentId'' \<mapsto> PyStr p] = {''paymentId''}
   \<and> (let r = \<lparr>call_path = ''/api/payments/fail'', call_method = ''POST'',
             call_data = Some [''paymentId'' \<mapsto> PyStr p, ''reason'' \<mapsto> PyStr reason]\<rparr> in
      fail self p (bind_optional (Passed (Some reason))) log =
        (respond (client self) log r, log @ [r]))
   \<and> dom [''paymentId'' \<mapsto> PyStr p, ''reason'' \<mapsto> PyStr reason] = {''paymentId'', ''reason''}"
  unfolding Let_def
  by (simp add: operation_unfold bodies_without_optionals insert_commute)

text \<open>
  C7. For each of the six operations and all arguments: if the collaborator raises an
  error \<open>e\<close> on the request the operation hands it, the operation ends with that same
  error \<open>e\<close>, and so with no response value.
\<close>

theorem transport_errors_propagate:
  "(respond (client self) log
      \<lparr>call_path = ''/api/payments/create'', call_method = ''POST'',
       call_data = Some (create_data a mw c sc pa pci cp ef d ce em it gs)\<rparr> = Inl e
      \<longrightarrow> fst (create self a mw c sc pa pci cp ef d ce em it gs log) = Inl e)
   \<and> (respond (client self) log
      \<lparr>call_path = ''/api/payments/'' @ p, call_method = ''GET'', call_data = None\<rparr> = Inl e
      \<longrightarrow> fst (retrieve self p log) = Inl e)
   \<and> (respond (client self) log
      \<lparr>call_path = ''/api/payments/submit-tx'', call_method = ''POST'',
       call_data = Some (submit_tx_data p t w ce cn gs)\<rparr> = Inl e
      \<longrightarrow> fst (submit_tx self p t w ce cn gs log) = Inl e)
   \<and> (respond (client self) log
      \<lparr>call_path = ''/api/payments/confirm'', call_method = ''POST'',
       call_data = Some (confirm_data p t w ce cn gs)\<rparr> = Inl e
      \<longrightarrow> fst (confirm self p t w ce cn gs log) = Inl e)
   \<and> (respond (client self) log
      \<lparr>call_path = ''/api/payments/fail'', call_method = ''POST'',
       call_data = Some (fail_data p r)\<rparr> = Inl e
      \<longrightarrow> fst (fail self p r log) = Inl e)
   \<and> (respond (client self) log
      \<lparr>call_path = ''/api/payments/expire'', call_method = ''POST'',
       call_data = Some (expire_data p)\<rparr> = Inl e
      \<longrightarrow> fst (expire self p log) = Inl e)"
  by (simp only: operation_unfold fst_conv simp_thms)

text \<open>
  A collaborator that refuses every connection: all six operations end with its error.
\<close>

theorem transport_errors_propagate_witness:
  "respond (client \<lparr>client = \<lparr>respond = \<lambda>log req. (Inl ''connection refused'' :: string + pydict)\<rparr>\<rparr>) []
      \<lparr>call_path = ''/api/payments/create'', call_method = ''POST'',
       call_data = Some (create_data ''100.00'' ''0xabc'' None None None None None None None
                           None None None None)\<rparr> = Inl ''connection refused''
   \<and> fst (create \<lparr>client = \<lparr>respond = \<lambda>log req. (Inl ''connection refused'' :: string + pydict)\<rparr>\<rparr>
          ''100.00'' ''0xabc'' None None None None None None None None None None None [])
       = Inl ''connection refused''
   \<and> fst (retrieve \<lparr>client = \<lparr>respond = \<lambda>log req. (Inl ''connection refused'' :: string + pydict)\<rparr>\<rparr>
          ''pay_1'' []) = Inl ''connection refused''
   \<and> fst (submit_tx \<lparr>client = \<lparr>respond = \<lambda>log req. (Inl ''connection refused'' :: string + pydict)\<rparr>\<rparr>
          ''pay_1'' ''0xhash'' ''0xpayer'' None None None []) = Inl ''connection refused''
   \<and> fst (confirm \<lparr>client = \<lparr>respond = \<lambda>log req. (Inl ''connection refused'' :: string + pydict)\<rparr>\<rparr>
          ''pay_1'' ''0xhash'' ''0xpayer'' None None None []) = Inl ''connection refused''
   \<and> fst (fail \<lparr>client = \<lparr>respond = \<lambda>log req. (Inl ''connection refused'' :: string + pydict)\<rparr>\<rparr>
          ''pay_1'' None []) = Inl ''connection refused''
   \<and> fst (expire \<lparr>client = \<lparr>respond = \<lambda>log req. (Inl ''connection refused'' :: string + pydict)\<rparr>\<rparr>
          ''pay_1'' []) = Inl ''connection refused''"
  using transport_errors_propagate
    [where self = "\<lparr>client = \<lparr>respond = \<lambda>log req. (Inl ''connection refused'' :: string + pydict)\<rparr>\<rparr>"
       and log = "[]" and e = "''connection refused''"
       and a = "''100.00''" and mw = "''0xabc''" and c = None and sc = None and pa = None
       and pci = None and cp = None and ef = None and d = None and ce = None and em = None
       and it = None and gs = None and p = "''pay_1''" and t = "''0xhash''"
       and w = "''0xpayer''" and cn = None and r = None]
  by simp

text \<open>
  C8. Each of the six operations invokes the collaborator's \<^verbatim>\<open>request\<close> exactly once:
  the list of requests the collaborator has received grows by exactly one entry, and the
  operation's result is the collaborator's answer to that one request.
\<close>

theorem one_request_per_operation:
  "(let r = \<lparr>call_path = ''/api/payments/create'', call_method = ''POST'',
             call_data = Some (create_data a mw c sc pa pci cp ef d ce em it gs)\<rparr> in
      create self a mw c sc pa pci cp ef d ce em it gs log =
        (respond (client self) log r, log @ [r]))
   \<and> (let r = \<lparr>call_path = ''/api/payments/'' @ p, call_method = ''GET'', call_data = None\<rparr> in
      retrieve self p log = (respond (client self) log r, log @ [r]))
   \<and> (let r = \<lparr>call_path = ''/api/payments/submit-tx'', call_method = ''POST'',
             call_data = Some (submit_tx_data p t w ce cn gs)\<rparr> in
      submit_tx self p t w ce cn gs log = (respond (client self) log r, log @ [r]))
   \<and> (let r = \<lparr>call_path = ''/api/payments/confirm'', call_method = ''POST'',
             call_data = Some (confirm_data p t w ce cn gs)\<rparr> in
      confirm self p t w ce cn gs log = (respond (client self) log r, log @ [r]))
   \<and> (let r = \<lparr>call_path = ''/api/payments/fail'', call_method = ''POST'',
             call_data = Some (fail_data p reason)\<rparr> in
      fail self p reason log = (respond (client self) log r, log @ [r]))
   \<and> (let r = \<lparr>call_path = ''/api/payments/expire'', call_method = ''POST'',
             call_data = Some (expire_data p)\<rparr> in
      expire self p log = (respond (client self) log r, log @ [r]))
   \<and> length (snd (create self a mw c sc pa pci cp ef d ce em it gs log)) = length log + 1
   \<and> length (snd (retrieve self p log)) = length log + 1
   \<and> length (snd (submit_tx self p t w ce cn gs log)) = length log + 1
   \<and> length (snd (confirm self p t w ce cn gs log)) = length log + 1
   \<and> length (snd (fail self p reason log)) = length log + 1
   \<and> length (snd (expire self p log)) = length log + 1"
  unfolding Let_def
  by (simp add: operation_unfold)

text \<open>
  C9. No body built by an operation holds \<^verbatim>\<open>None\<close> under any key. For every
  optional parameter of every operation, whatever the other arguments are: when the
  parameter is passed as \<^verbatim>\<open>None\<close> its key is left out of the body, and the result and
  the request are the same as when the parameter is left out of the call.
\<close>

theorem no_null_in_bodies:
  "PyNone \<notin> ran (create_data a mw c sc pa pci cp ef d ce em it gs)
   \<and> call_data (last (snd (create self a mw c sc pa pci cp ef d ce em it gs log))) =
       Some (create_data a mw c sc pa pci cp ef d ce em it gs)
   \<and> PyNone \<notin> ran (submit_tx_data p t w ce cn gs)
   \<and> call_data (last (snd (submit_tx self p t w ce cn gs log))) =
       Some (submit_tx_data p t w ce cn gs)
   \<and> PyNone \<notin> ran (confirm_data p t w ce cn gs)
   \<and> call_data (last (snd (confirm self p t w ce cn gs log))) =
       Some (confirm_data p t w ce cn gs)
   \<and> PyNone \<notin> ran (fail_data p reason)
   \<and> call_data (last (snd (fail self p reason log))) = Some (fail_data p reason)
   \<and> PyNone \<notin> ran (expire_data p)
   \<and> call_data (last (snd (expire self p log))) = Some (expire_data p)
   \<and> call_data (last (snd (retrieve self p log))) = None
   \<and> ''currency'' \<notin> dom (create_data a mw (bind_optional (Passed None)) sc pa pci cp ef d ce em it gs)
   \<and> ''settlementCurrency'' \<notin> dom (create_data a mw c (bind_optional (Passed None)) pa pci cp ef d ce em it gs)
   \<and> ''paymentAsset'' \<notin> dom (create_data a mw c sc (bind_optional (Passed None)) pci cp ef d ce em it gs)
   \<and> ''paymentChainId'' \<notin> dom (create_data a mw c sc pa (bind_optional (Passed None)) cp ef d ce em it gs)
   \<and> ''conversionPath'' \<notin> dom (create_data a mw c sc pa pci (bind_optional (Passed None)) ef d ce em it gs)
   \<and> ''estimatedFees'' \<notin> dom (create_data a mw c sc pa pci cp (bind_optional (Passed None)) d ce em it gs)
   \<and> ''description'' \<notin> dom (create_data a mw c sc pa pci cp ef (bind_optional (Passed None)) ce em it gs)
   \<and> ''customerEmail'' \<notin> dom (create_data a mw c sc pa pci cp ef d (bind_optional (Passed None)) em it gs)
   \<and> ''expiresInMinutes'' \<notin> dom (create_data a mw c sc pa pci cp ef d ce (bind_optional (Passed None)) it gs)
   \<and> ''isTest'' \<notin> dom (create_data a mw c sc pa pci cp ef d ce em (bind_optional (Passed None)) gs)
   \<and> ''gasSponsored'' \<notin> dom (create_data a mw c sc pa pci cp ef d ce em it (bind_optional (Passed None)))
   \<and> ''customerEmail'' \<notin> dom (submit_tx_data p t w (bind_optional (Passed None)) cn gs)
   \<and> ''customerName'' \<notin> dom (submit_tx_data p t w ce (bind_optional (Passed None)) gs)
   \<and> ''gasSponsored'' \<notin> dom (submit_tx_data p t w ce cn (bind_optional (Passed None)))
   \<and> ''customerEmail'' \<notin> dom (confirm_data p t w (bind_optional (Passed None)) cn gs)
   \<and> ''customerName'' \<notin> dom (confirm_data p t w ce (bind_optional (Passed None)) gs)
   \<and> ''gasSponsored'' \<notin> dom (confirm_data p t w ce cn (bind_optional (Passed None)))
   \<and> ''reason'' \<notin> dom (fail_data p (bind_optional (Passed None)))
   \<and> create self a mw (bind_optional (Passed None)) sc pa pci cp ef d ce em it gs log =
       create self a mw (bind_optional Omitted) sc pa pci cp ef d ce em it gs log
   \<and> create self a mw c (bind_optional (Passed None)) pa pci cp ef d ce em it gs log =
       create self a mw c (bind_optional Omitted) pa pci cp ef d ce em it gs log
   \<and> create self a mw c sc (bind_optional (Passed None)) pci cp ef d ce em it gs log =
       create self a mw c sc (bind_optional Omitted) pci cp ef d ce em it gs log
   \<and> create self a mw c sc pa (bind_optional (Passed None)) cp ef d ce em it gs log =
       create self a mw c sc pa (bind_optional Omitted) cp ef d ce em it gs log
   \<and> create self a mw c sc pa pci (bind_optional (Passed None)) ef d ce em it gs log =
       create self a mw c sc pa pci (bind_optional Omitted) ef d ce em it gs log
   \<and> create self a mw c sc pa pci cp (bind_optional (Passed None)) d ce em it gs log =
       create self a mw c sc pa pci cp (bind_optional Omitted) d ce em it gs log
   \<and> create self a mw c sc pa pci cp ef (bind_optional (Passed None)) ce em it gs log =
       create self a mw c sc pa pci cp ef (bind_optional Omitted) ce em it gs log
   \<and> create self a mw c sc pa pci cp ef d (bind_optional (Passed None)) em it gs log =
       create self a mw c sc pa pci cp ef d (bind_optional Omitted) em it gs log
   \<and> create self a mw c sc pa pci cp ef d ce (bind_optional (Passed None)) it gs log =
       create self a mw c sc pa pci cp ef d ce (bind_optional Omitted) it gs log
   \<and> create self a mw c sc pa pci cp ef d ce em (bind_optional (Passed None)) gs log =
       create self a mw c sc pa pci cp ef d ce em (bind_optional Omitted) gs log
   \<and> create self a mw c sc pa pci cp ef d ce em it (bind_optional (Passed None)) log =
       create self a mw c sc pa pci cp ef d ce em it (bind_optional Omitted) log
   \<and> submit_tx self p t w (bind_optional (Passed None)) cn gs log =
       submit_tx self p t w (bind_optional Omitted) cn gs log
   \<and> submit_tx self p t w ce (bind_optional (Passed None)) gs log =
       submit_tx self p t w ce (bind_optional Omitted) gs log
   \<and> submit_tx self p t w ce cn (bind_optional (Passed None)) log =
       submit_tx self p t w ce cn (bind_optional Omitted) log
   \<and> confirm self p t w (bind_optional (Passed None)) cn gs log =
       confirm self p t w (bind_optional Omitted) cn gs log
   \<and> confirm self p t w ce (bind_optional (Passed None)) gs log =
       confirm self p t w ce (bind_optional Omitted) gs log
   \<and> confirm self p t w ce cn (bind_optional (Passed None)) log =
       confirm self p t w ce cn (bind_optional Omitted) log
   \<and> fail self p (bind_optional (Passed None)) log =
       fail self p (bind_optional Omitted) log"
  by (simp add: no_null none_leaves_key_out confirm_data_eq operation_unfold)

text \<open>
  C10. The path \<^verbatim>\<open>retrieve\<close> requests is the prefix \<^verbatim>\<open>/api/payments/\<close> followed by the
  identifier, unchanged, for every string: the empty identifier gives the bare prefix,
  an identifier with a path separator gives a path with one more separator, the number
  of separators in the path is three plus the number in the identifier, and two
  identifiers give the same path only if they are equal.
\<close>

theorem retrieve_path_verbatim:
  "map call_path (snd (retrieve self p log)) = map call_path log @ [''/api/payments/'' @ p]
   \<and> map call_path (snd (retrieve self '''' log)) = map call_path log @ [''/api/payments/'']
   \<and> map call_path (snd (retrieve self ''pay_1/refund'' log)) =
       map call_path log @ [''/api/payments/pay_1/refund'']
   \<and> count_list (call_path (last (snd (retrieve self p log)))) CHR ''/'' =
       3 + count_list p CHR ''/''
   \<and> (call_path (last (snd (retrieve self p log))) = call_path (last (snd (retrieve self p' log))))
       = (p = p')"
  by (simp add: operation_unfold)

end
